theory Spec2Isabelle
  imports Main
begin

section \<open>Smart Reminders: data model\<close>

text \<open>
  The component under study is \<^verbatim>\<open>custom_components/smart_reminders/__init__.py\<close>.
  Python dictionaries whose order is never observed are partial maps.
\<close>

datatype pyval = PStr string | PInt int | PBool bool | PNone

type_synonym pydict = "string \<rightharpoonup> pyval"

datatype py_error = ValueError string | KeyError string | TypeError string

text \<open>
  A Python \<^verbatim>\<open>datetime\<close> is naive (no \<^verbatim>\<open>tzinfo\<close>) or aware. Either way it is
  kept as the number of seconds of its instant, an aware one on the UTC time line, a naive
  one on its own wall clock. An ordering comparison between a naive and an aware
  \<^verbatim>\<open>datetime\<close> raises \<^verbatim>\<open>TypeError\<close>; \<open>dt_gt i dt\<close> is \<^verbatim>\<open>i > dt\<close>.
  \<^verbatim>\<open>datetime.utcnow()\<close> returns a naive \<^verbatim>\<open>datetime\<close>; its argument here is the
  reading of the clock.
\<close>

datatype datetime = Naive int | Aware int

definition dt_gt :: "datetime \<Rightarrow> datetime \<Rightarrow> py_error + bool" where
  "dt_gt i dt =
     (case (i, dt) of
        (Naive x, Naive y) \<Rightarrow> Inr (y < x)
      | (Aware x, Aware y) \<Rightarrow> Inr (y < x)
      | _ \<Rightarrow> Inl (TypeError ''cannot compare offset-naive and offset-aware datetimes''))"

definition utcnow :: "int \<Rightarrow> datetime" where
  "utcnow clock = Naive clock"

definition EVENT_REMINDER_TRIGGERED :: string where
  "EVENT_REMINDER_TRIGGERED = ''reminder_triggered''"

text \<open>
  \<^verbatim>\<open>@dataclass class ReminderAction\<close>: \<^verbatim>\<open>type: str\<close>,
  \<^verbatim>\<open>service: Optional[str] = None\<close>, \<^verbatim>\<open>entity_id: Optional[str] = None\<close>,
  \<^verbatim>\<open>data: Dict[str, Any]\<close>.
\<close>

record ReminderAction =
  type :: string
  service :: "string option"
  entity_id :: "string option"
  data :: pydict

text \<open>
  Modelled from the spec: the compiled recurrence iterator. It is the object returned by
  \<^verbatim>\<open>dateutil.rrule.rrulestr\<close>, a library outside the repository. The spec (section 6)
  describes it as an iterator exposing \<^verbatim>\<open>first_after(timestamp) -> timestamp | none\<close>,
  and section 4.1 as yielding "the earliest occurrence strictly greater than now". It is
  modelled by the finite sequence of occurrences the iterator yields, in the order it
  yields them; they are anchored on the start, naive or aware as the start is. \<open>after\<close>
  with \<^verbatim>\<open>inc=False\<close> walks the occurrences and returns the first one that compares
  strictly later than its argument; a comparison that raises ends the walk.
\<close>

datatype rrule_iter = RRuleIter (occurrences: "datetime list")

fun first_after :: "datetime list \<Rightarrow> datetime \<Rightarrow> py_error + datetime option" where
  "first_after [] dt = Inr None"
| "first_after (i # rest) dt =
     (case dt_gt i dt of
        Inl e \<Rightarrow> Inl e
      | Inr later \<Rightarrow> if later then Inr (Some i) else first_after rest dt)"

definition after :: "rrule_iter \<Rightarrow> datetime \<Rightarrow> py_error + datetime option" where
  "after it dt = first_after (occurrences it) dt"

text \<open>
  \<^verbatim>\<open>@dataclass class Reminder\<close>. The field \<^verbatim>\<open>id\<close> is written \<open>id'\<close>, and the
  private fields \<^verbatim>\<open>_cancel\<close> and \<^verbatim>\<open>_rrule\<close> are \<open>priv_cancel\<close> and \<open>priv_rrule\<close>.
  A cancel handle is the number of the timer it would cancel.
\<close>

record Reminder =
  message :: string
  start :: datetime
  rrule :: "string option"
  actions :: "ReminderAction list"
  id' :: string
  priv_cancel :: "nat option"
  priv_rrule :: "rrule_iter option"

text \<open>The \<^verbatim>\<open>start\<close> argument of the constructor is a string or a timestamp.\<close>

datatype start_arg = StartStr string | StartTime datetime

text \<open>
  \<^verbatim>\<open>Reminder.__post_init__\<close>, run by the generated constructor. The two library functions
  \<^verbatim>\<open>dateparser.parse\<close> and \<^verbatim>\<open>rrulestr\<close> are parameters. An empty rule string is
  falsy in Python, so it compiles nothing.
\<close>

definition Reminder_init ::
  "(string \<Rightarrow> datetime option) \<Rightarrow> (string \<Rightarrow> datetime \<Rightarrow> py_error + rrule_iter) \<Rightarrow>
   string \<Rightarrow> start_arg \<Rightarrow> string option \<Rightarrow> ReminderAction list \<Rightarrow> string \<Rightarrow>
   py_error + Reminder" where
  "Reminder_init parse rrulestr msg st rr acts uid =
     (case (case st of
              StartStr s \<Rightarrow>
                (case parse s of
                   None \<Rightarrow> Inl (ValueError (''Could not parse start datetime: '' @ s))
                 | Some parsed \<Rightarrow> Inr parsed)
            | StartTime d \<Rightarrow> Inr d) of
        Inl e \<Rightarrow> Inl e
      | Inr d \<Rightarrow>
          (let r = \<lparr>message = msg, start = d, rrule = rr, actions = acts, id' = uid,
                    priv_cancel = None, priv_rrule = None\<rparr>
           in case rr of
                None \<Rightarrow> Inr r
              | Some rule \<Rightarrow>
                  if rule = [] then Inr r
                  else (case rrulestr rule d of
                          Inl e \<Rightarrow> Inl e
                        | Inr it \<Rightarrow> Inr (r\<lparr>priv_rrule := Some it\<rparr>))))"

text \<open>
  \<^verbatim>\<open>Reminder.next_occurrence\<close>. The source reads the clock itself
  (\<^verbatim>\<open>datetime.utcnow()\<close>); the reading is the argument \<open>now\<close>. The result is the
  exception raised, or the value returned.
\<close>

definition next_occurrence :: "Reminder \<Rightarrow> int \<Rightarrow> py_error + datetime option" where
  "next_occurrence r now =
     (case priv_rrule r of
        Some it \<Rightarrow> after it (utcnow now)
      | None \<Rightarrow> Inr None)"

section \<open>The manager and the host\<close>

text \<open>
  What the host observes: the service calls handed to \<^verbatim>\<open>hass.async_create_task\<close>
  and the events fired on \<^verbatim>\<open>hass.bus\<close>, kept in one log in the order they happen,
  and the timers armed with \<^verbatim>\<open>async_track_point_in_utc_time\<close>. The callback of a timer is
  \<^verbatim>\<open>lambda _: self._handle_trigger(reminder)\<close>; the timer keeps the reference to that
  reminder object.
\<close>

record service_call =
  call_domain :: string
  call_service :: string
  call_data :: pydict
  call_blocking :: bool

record event =
  event_type :: string
  event_data :: pydict

datatype effect = is_Call: Call service_call | Fired event

record timer =
  handle :: nat
  fire_at :: datetime
  target :: nat

text \<open>
  Reminder objects are mutable and shared between the manager's dictionary and the timer
  callbacks, so they live in a store addressed by reference. \<open>reminders\<close> is the
  manager's \<^verbatim>\<open>_reminders\<close> dictionary, from id to reminder object.
\<close>

record state =
  heap :: "nat \<rightharpoonup> Reminder"
  next_ref :: nat
  reminders :: "string \<rightharpoonup> nat"
  timers :: "timer list"
  next_handle :: nat
  effects :: "effect list"

text \<open>\<^verbatim>\<open>ReminderManager.__init__\<close>: no reminder, and a host that has seen nothing yet.\<close>

definition init_state :: state where
  "init_state = \<lparr>heap = Map.empty, next_ref = 0, reminders = Map.empty, timers = [],
                  next_handle = 0, effects = []\<rparr>"

text \<open>Truthiness of an \<^verbatim>\<open>Optional[str]\<close>: neither \<^verbatim>\<open>None\<close> nor empty.\<close>

definition truthy :: "string option \<Rightarrow> bool" where
  "truthy x = (case x of None \<Rightarrow> False | Some s \<Rightarrow> s \<noteq> [])"

text \<open>\<^verbatim>\<open>s.split(sep, 1)\<close> for a one-character separator: at most one split, at the first separator.\<close>

definition split_maxsplit1 :: "char \<Rightarrow> string \<Rightarrow> string list" where
  "split_maxsplit1 sep s =
     (case dropWhile (\<lambda>c. c \<noteq> sep) s of
        [] \<Rightarrow> [s]
      | _ # rest \<Rightarrow> [takeWhile (\<lambda>c. c \<noteq> sep) s, rest])"

text \<open>\<^verbatim>\<open>ReminderManager._schedule\<close>: arm a timer and store its cancel handle on the reminder.\<close>

definition schedule :: "nat \<Rightarrow> datetime \<Rightarrow> state \<Rightarrow> state" where
  "schedule ref at s =
     (let h = next_handle s
      in s\<lparr>timers := timers s @ [\<lparr>handle = h, fire_at = at, target = ref\<rparr>],
           next_handle := Suc h,
           heap := (case heap s ref of
                      None \<Rightarrow> heap s
                    | Some r \<Rightarrow> (heap s)(ref \<mapsto> r\<lparr>priv_cancel := Some h\<rparr>))\<rparr>)"

text \<open>\<^verbatim>\<open>ReminderManager.add\<close>.\<close>

definition add :: "nat \<Rightarrow> state \<Rightarrow> state" where
  "add ref s =
     (case heap s ref of
        None \<Rightarrow> s
      | Some r \<Rightarrow> schedule ref (start r) (s\<lparr>reminders := (reminders s)(id' r \<mapsto> ref)\<rparr>))"

text \<open>
  The body of the loop of \<^verbatim>\<open>_handle_trigger\<close>, for one action. Unpacking the result of
  \<^verbatim>\<open>split\<close> into two names raises \<^verbatim>\<open>ValueError\<close> when the list has one element. The
  result is the exception raised, if any, and the state left behind.
\<close>

definition dispatch :: "Reminder \<Rightarrow> ReminderAction \<Rightarrow> state \<Rightarrow> py_error option \<times> state" where
  "dispatch r a s =
     (if type a = ''tts'' \<and> truthy (entity_id a) then
        (None, s\<lparr>effects := effects s @
           [Call \<lparr>call_domain = ''tts'', call_service = ''google_translate_say'',
                  call_data = [''entity_id'' \<mapsto> PStr (the (entity_id a)),
                               ''message'' \<mapsto> PStr (message r)],
                  call_blocking = True\<rparr>]\<rparr>)
      else if type a = ''notify'' \<and> truthy (service a) then
        (case split_maxsplit1 CHR ''.'' (the (service a)) of
           [service_domain, service_name] \<Rightarrow>
             (None, s\<lparr>effects := effects s @
                [Call \<lparr>call_domain = service_domain, call_service = service_name,
                       call_data = [''message'' \<mapsto> PStr (message r)] ++ data a,
                       call_blocking = True\<rparr>]\<rparr>)
         | _ \<Rightarrow> (Some (ValueError ''not enough values to unpack (expected 2, got 1)''), s))
      else (None, s))"

text \<open>The loop \<^verbatim>\<open>for action in reminder.actions\<close>: an exception leaves the loop.\<close>

fun dispatch_all :: "Reminder \<Rightarrow> ReminderAction list \<Rightarrow> state \<Rightarrow> py_error option \<times> state" where
  "dispatch_all r [] s = (None, s)"
| "dispatch_all r (a # as) s =
     (case dispatch r a s of
        (Some e, s') \<Rightarrow> (Some e, s')
      | (None, s') \<Rightarrow> dispatch_all r as s')"

text \<open>
  \<^verbatim>\<open>ReminderManager._handle_trigger\<close>, for the reminder object at \<open>ref\<close>, with \<open>now\<close>
  the clock reading taken by \<^verbatim>\<open>next_occurrence\<close>. A timestamp is always truthy, so
  \<^verbatim>\<open>if next_time\<close> tests for \<^verbatim>\<open>None\<close>. An exception of \<^verbatim>\<open>next_occurrence\<close>
  leaves the function after the event was fired.
\<close>

definition handle_trigger :: "nat \<Rightarrow> int \<Rightarrow> state \<Rightarrow> py_error option \<times> state" where
  "handle_trigger ref now s =
     (case heap s ref of
        None \<Rightarrow> (None, s)
      | Some r \<Rightarrow>
          (case dispatch_all r (actions r) s of
             (Some e, s1) \<Rightarrow> (Some e, s1)
           | (None, s1) \<Rightarrow>
               (let s2 = s1\<lparr>effects := effects s1 @
                            [Fired \<lparr>event_type = EVENT_REMINDER_TRIGGERED,
                                    event_data = [''id'' \<mapsto> PStr (id' r),
                                                  ''message'' \<mapsto> PStr (message r)]\<rparr>]\<rparr>
                in case next_occurrence r now of
                     Inl e \<Rightarrow> (Some e, s2)
                   | Inr (Some next_time) \<Rightarrow> (None, schedule ref next_time s2)
                   | Inr None \<Rightarrow> (None, s2\<lparr>reminders := (reminders s2)(id' r := None)\<rparr>))))"

text \<open>
  Modelled from the spec: the host's \<^verbatim>\<open>schedule_at(timestamp, callback)\<close> capability
  (section 6), a one-shot wake-up. Firing an armed timer disarms it and runs its callback.
\<close>

definition fire_timer :: "timer \<Rightarrow> int \<Rightarrow> state \<Rightarrow> py_error option \<times> state" where
  "fire_timer t now s =
     (if t \<in> set (timers s)
      then handle_trigger (target t) now (s\<lparr>timers := remove1 t (timers s)\<rparr>)
      else (None, s))"

section \<open>The add-reminder service\<close>

text \<open>
  The payload of a service call is a dictionary; a key that may be absent is an option.
  \<open>arg_unexpected\<close> lists the keys of an action dictionary that are not fields of
  \<^verbatim>\<open>ReminderAction\<close>: \<^verbatim>\<open>ReminderAction(**a)\<close> raises \<^verbatim>\<open>TypeError\<close> on them, and on a
  missing \<^verbatim>\<open>type\<close>.
\<close>

record action_args =
  arg_type :: "string option"
  arg_service :: "string option"
  arg_entity_id :: "string option"
  arg_data :: "pydict option"
  arg_unexpected :: "string list"

record add_request =
  req_message :: "string option"
  req_start :: "start_arg option"
  req_rrule :: "string option"
  req_actions :: "action_args list"

definition ReminderAction_init :: "action_args \<Rightarrow> py_error + ReminderAction" where
  "ReminderAction_init a =
     (if arg_unexpected a \<noteq> [] then Inl (TypeError ''unexpected keyword argument'')
      else case arg_type a of
             None \<Rightarrow> Inl (TypeError ''missing required argument: type'')
           | Some t \<Rightarrow>
               Inr \<lparr>type = t, service = arg_service a, entity_id = arg_entity_id a,
                    data = (case arg_data a of None \<Rightarrow> Map.empty | Some d \<Rightarrow> d)\<rparr>)"

text \<open>The comprehension \<^verbatim>\<open>[ReminderAction(**a) for a in data.get("actions", [])]\<close>.\<close>

fun build_actions :: "action_args list \<Rightarrow> py_error + ReminderAction list" where
  "build_actions [] = Inr []"
| "build_actions (a # as) =
     (case ReminderAction_init a of
        Inl e \<Rightarrow> Inl e
      | Inr x \<Rightarrow> (case build_actions as of Inl e \<Rightarrow> Inl e | Inr xs \<Rightarrow> Inr (x # xs)))"

text \<open>
  \<^verbatim>\<open>handle_add\<close>. \<open>uid\<close> is the token \<^verbatim>\<open>uuid.uuid4().hex\<close> drawn for the new reminder.
  The arguments of the constructor are evaluated in the order of the source: the actions,
  then \<^verbatim>\<open>data["message"]\<close>, then \<^verbatim>\<open>data["start"]\<close>.
\<close>

definition handle_add ::
  "(string \<Rightarrow> datetime option) \<Rightarrow> (string \<Rightarrow> datetime \<Rightarrow> py_error + rrule_iter) \<Rightarrow>
   string \<Rightarrow> add_request \<Rightarrow> state \<Rightarrow> py_error option \<times> state" where
  "handle_add parse rrulestr uid req s =
     (case build_actions (req_actions req) of
        Inl e \<Rightarrow> (Some e, s)
      | Inr acts \<Rightarrow>
          (case req_message req of
             None \<Rightarrow> (Some (KeyError ''message''), s)
           | Some msg \<Rightarrow>
               (case req_start req of
                  None \<Rightarrow> (Some (KeyError ''start''), s)
                | Some st \<Rightarrow>
                    (case Reminder_init parse rrulestr msg st (req_rrule req) acts uid of
                       Inl e \<Rightarrow> (Some e, s)
                     | Inr r \<Rightarrow>
                         (let ref = next_ref s
                          in (None, add ref (s\<lparr>heap := (heap s)(ref \<mapsto> r),
                                               next_ref := Suc ref\<rparr>)))))))"

section \<open>What one action does\<close>

text \<open>
  The exception one action raises and the effects it hands to the host, read off the loop
  body run on its own. \<open>dispatch_eq\<close> below shows that neither depends on the state.
\<close>

definition raised :: "Reminder \<Rightarrow> ReminderAction \<Rightarrow> py_error option" where
  "raised r a = fst (dispatch r a init_state)"

definition dispatched :: "Reminder \<Rightarrow> ReminderAction \<Rightarrow> effect list" where
  "dispatched r a = effects (snd (dispatch r a init_state))"

text \<open>The event \<^verbatim>\<open>_handle_trigger\<close> fires for a reminder.\<close>

abbreviation triggered :: "Reminder \<Rightarrow> effect" where
  "triggered r \<equiv>
     Fired \<lparr>event_type = EVENT_REMINDER_TRIGGERED,
            event_data = [''id'' \<mapsto> PStr (id' r), ''message'' \<mapsto> PStr (message r)]\<rparr>"

section \<open>Concrete inputs\<close>

text \<open>
  A date parser that knows two strings, one without a zone and the one of the spec's
  scenario with the zone \<^verbatim>\<open>Z\<close>, and a rule compiler that knows the rule of two daily
  occurrences, for evaluating the definitions on concrete inputs. \<open>plus_seconds\<close> is
  \<^verbatim>\<open>datetime + timedelta\<close>, which keeps the zone.
\<close>

definition demo_parse :: "string \<Rightarrow> datetime option" where
  "demo_parse s =
     (if s = ''2024-01-01T00:00:00'' then Some (Naive 1704067200)
      else if s = ''2024-01-01T00:00:00Z'' then Some (Aware 1704067200)
      else None)"

definition plus_seconds :: "datetime \<Rightarrow> int \<Rightarrow> datetime" where
  "plus_seconds d n = (case d of Naive x \<Rightarrow> Naive (x + n) | Aware x \<Rightarrow> Aware (x + n))"

definition demo_rrulestr :: "string \<Rightarrow> datetime \<Rightarrow> py_error + rrule_iter" where
  "demo_rrulestr rule d =
     (if rule = ''FREQ=DAILY;COUNT=2'' then Inr (RRuleIter [d, plus_seconds d 86400])
      else Inl (ValueError ''unknown rrule parameter''))"

text \<open>
  Actions of each kind: well formed, of an unknown type, and a \<^verbatim>\<open>notify\<close> action
  whose service has no dot. Then a one-shot and a twice-daily reminder carrying given
  actions, the twice-daily reminder with the zoned start, the state in which the timer
  of such a reminder has just fired, a state in which a second reminder object with the
  id of a live one waits to be added, and an add request without actions.
\<close>

definition demo_tts :: ReminderAction where
  "demo_tts = \<lparr>type = ''tts'', service = None, entity_id = Some ''media_player.kitchen'',
                data = Map.empty\<rparr>"

definition demo_notify :: ReminderAction where
  "demo_notify = \<lparr>type = ''notify'', service = Some ''mobile_app.notify'', entity_id = None,
                   data = [''title'' \<mapsto> PStr ''Reminder'']\<rparr>"

definition demo_override :: ReminderAction where
  "demo_override = \<lparr>type = ''notify'', service = Some ''mobile_app.notify'', entity_id = None,
                     data = [''message'' \<mapsto> PStr ''Custom'']\<rparr>"

definition demo_unknown :: ReminderAction where
  "demo_unknown = \<lparr>type = ''email'', service = Some ''mail.send'', entity_id = None,
                    data = Map.empty\<rparr>"

definition demo_dotless :: ReminderAction where
  "demo_dotless = \<lparr>type = ''notify'', service = Some ''notify'', entity_id = None,
                    data = Map.empty\<rparr>"

definition demo_oneshot :: "ReminderAction list \<Rightarrow> Reminder" where
  "demo_oneshot acts = \<lparr>message = ''Take pills'', start = Naive 1704067200, rrule = None,
                         actions = acts, id' = ''r1'', priv_cancel = Some 0,
                         priv_rrule = None\<rparr>"

definition demo_daily :: "ReminderAction list \<Rightarrow> Reminder" where
  "demo_daily acts = \<lparr>message = ''Take pills'', start = Naive 1704067200,
                       rrule = Some ''FREQ=DAILY;COUNT=2'', actions = acts, id' = ''r1'',
                       priv_cancel = Some 0,
                       priv_rrule = Some (RRuleIter [Naive 1704067200, Naive 1704153600])\<rparr>"

definition demo_zoned :: "ReminderAction list \<Rightarrow> Reminder" where
  "demo_zoned acts = \<lparr>message = ''Take pills'', start = Aware 1704067200,
                       rrule = Some ''FREQ=DAILY;COUNT=2'', actions = acts, id' = ''r1'',
                       priv_cancel = Some 0,
                       priv_rrule = Some (RRuleIter [Aware 1704067200, Aware 1704153600])\<rparr>"

definition demo_state :: "Reminder \<Rightarrow> state" where
  "demo_state r = \<lparr>heap = [0 \<mapsto> r], next_ref = 1, reminders = [id' r \<mapsto> 0], timers = [],
                    next_handle = 1, effects = []\<rparr>"

definition demo_collision :: state where
  "demo_collision =
     \<lparr>heap = [0 \<mapsto> demo_oneshot [demo_tts],
              1 \<mapsto> (demo_oneshot [demo_notify])\<lparr>message := ''Second'', priv_cancel := None\<rparr>],
      next_ref = 2, reminders = [''r1'' \<mapsto> 0],
      timers = [\<lparr>handle = 0, fire_at = Naive 1704067200, target = 0\<rparr>],
      next_handle = 1, effects = []\<rparr>"

definition demo_request :: "string option \<Rightarrow> start_arg \<Rightarrow> string option \<Rightarrow> add_request" where
  "demo_request msg st rr = \<lparr>req_message = msg, req_start = Some st, req_rrule = rr,
                              req_actions = []\<rparr>"

section \<open>The loop over the actions\<close>

lemma split_with_sep:
  "sep \<notin> set d \<Longrightarrow> split_maxsplit1 sep (d @ sep # n) = [d, n]"
proof -
  assume d: "sep \<notin> set d"
  then have "dropWhile (\<lambda>c. c \<noteq> sep) d = []" "takeWhile (\<lambda>c. c \<noteq> sep) d = d"
    by auto
  moreover from d have "\<forall>x \<in> set d. x \<noteq> sep" by auto
  ultimately have h: "dropWhile (\<lambda>c. c \<noteq> sep) (d @ sep # n) = sep # n"
    "takeWhile (\<lambda>c. c \<noteq> sep) (d @ sep # n) = d"
    by (simp_all add: dropWhile_append takeWhile_append)
  show ?thesis unfolding split_maxsplit1_def h by simp
qed

lemma split_without_sep:
  "sep \<notin> set s \<Longrightarrow> split_maxsplit1 sep s = [s]"
proof -
  assume "sep \<notin> set s"
  then have h: "dropWhile (\<lambda>c. c \<noteq> sep) s = []"
    by auto
  show ?thesis unfolding split_maxsplit1_def h by simp
qed

lemma split_cases:
  "(sep \<notin> set s \<and> split_maxsplit1 sep s = [s]) \<or>
   (\<exists>d n. s = d @ sep # n \<and> sep \<notin> set d \<and> split_maxsplit1 sep s = [d, n])"
proof (cases "sep \<in> set s")
  case False
  then show ?thesis by (simp add: split_without_sep)
next
  case True
  then obtain d n where "s = d @ sep # n" "sep \<notin> set d"
    by (auto dest: split_list_first)
  then show ?thesis using split_with_sep by blast
qed

lemma dispatch_eq:
  "dispatch r a s = (raised r a, s\<lparr>effects := effects s @ dispatched r a\<rparr>)"
  by (auto simp: dispatch_def raised_def dispatched_def init_state_def split: list.splits)

lemma raised_iff:
  "raised r a \<noteq> None \<longleftrightarrow>
     type a = ''notify'' \<and> truthy (service a) \<and> CHR ''.'' \<notin> set (the (service a))"
  using split_cases [of "CHR ''.''" "the (service a)"]
  by (auto simp: raised_def dispatch_def)

lemma raised_dispatched: "raised r a \<noteq> None \<Longrightarrow> dispatched r a = []"
  by (auto simp: raised_def dispatched_def dispatch_def init_state_def split: if_splits list.splits)


lemma dispatch_all_eq:
  "dispatch_all r as s =
     ((case dropWhile (\<lambda>a. raised r a = None) as of [] \<Rightarrow> None | a # _ \<Rightarrow> raised r a),
      s\<lparr>effects := effects s @ concat (map (dispatched r) (takeWhile (\<lambda>a. raised r a = None) as))\<rparr>)"
proof (induction as arbitrary: s)
  case Nil
  show ?case by simp
next
  case (Cons a as)
  show ?case
  proof (cases "raised r a")
    case None
    then show ?thesis by (simp add: dispatch_eq Cons.IH)
  next
    case (Some e)
    then have "dispatched r a = []" by (simp add: raised_dispatched)
    with Some show ?thesis by (simp add: dispatch_eq)
  qed
qed

lemma raised_message: "message r' = message r \<Longrightarrow> raised r' a = raised r a"
  by (simp add: raised_def dispatch_def split: list.splits)

lemma dispatched_message: "message r' = message r \<Longrightarrow> dispatched r' a = dispatched r a"
  by (simp add: dispatched_def dispatch_def split: list.splits)

lemma dispatch_all_skip:
  assumes "raised r a = None" "dispatched r a = []"
  shows "dispatch_all r (xs @ a # ys) s = dispatch_all r (xs @ ys) s"
proof (induction xs arbitrary: s)
  case Nil
  from assms show ?case by (simp add: dispatch_eq)
next
  case (Cons x xs)
  then show ?case by (simp add: dispatch_eq split: option.splits)
qed

lemma dispatch_all_None_iff:
  "fst (dispatch_all r as s) = None \<longleftrightarrow> (\<forall>a \<in> set as. raised r a = None)"
proof (induction as arbitrary: s)
  case Nil
  show ?case by simp
next
  case (Cons a as)
  show ?case
  proof (cases "raised r a")
    case None
    with Cons.IH show ?thesis by (simp add: dispatch_eq)
  next
    case (Some e)
    then show ?thesis by (simp add: dispatch_eq)
  qed
qed

lemma takeWhile_all: "\<forall>a \<in> set as. P a \<Longrightarrow> takeWhile P as = as"
  by simp

lemma dispatch_all_clean:
  "\<forall>a \<in> set as. raised r a = None \<Longrightarrow>
   dispatch_all r as s = (None, s\<lparr>effects := effects s @ concat (map (dispatched r) as)\<rparr>)"
  by (induction as arbitrary: s) (simp_all add: dispatch_eq)

lemma dispatch_all_message:
  "message r' = message r \<Longrightarrow> dispatch_all r' as s = dispatch_all r as s"
  by (induction as arbitrary: s)
     (simp_all add: dispatch_eq raised_message [of r' r] dispatched_message [of r' r]
        split: option.splits)

lemma dispatch_all_fst: "fst (dispatch_all r as s) = fst (dispatch_all r as t)"
  by (simp add: dispatch_all_eq)

lemma takeWhile_skip:
  "P a \<Longrightarrow> f a = [] \<Longrightarrow>
   concat (map f (takeWhile P (xs @ a # ys))) = concat (map f (takeWhile P (xs @ ys)))"
  by (induction xs) simp_all


section \<open>One trigger\<close>

lemma handle_trigger_raise:
  assumes "heap s ref = Some r" "dispatch_all r (actions r) s = (Some e, s1)"
  shows "handle_trigger ref now s = (Some e, s1)"
  using assms by (simp add: handle_trigger_def)

lemma handle_trigger_ok:
  assumes "heap s ref = Some r" "dispatch_all r (actions r) s = (None, s1)"
  shows "handle_trigger ref now s =
     (case next_occurrence r now of
        Inl e \<Rightarrow> (Some e, s1\<lparr>effects := effects s1 @ [triggered r]\<rparr>)
      | Inr (Some next_time) \<Rightarrow>
          (None, schedule ref next_time (s1\<lparr>effects := effects s1 @ [triggered r]\<rparr>))
      | Inr None \<Rightarrow>
          (None, s1\<lparr>effects := effects s1 @ [triggered r],
                    reminders := (reminders s1)(id' r := None)\<rparr>))"
  using assms by (simp add: handle_trigger_def Let_def split: option.splits sum.splits)

lemma handle_trigger_clean:
  assumes "heap s ref = Some r" "\<forall>a \<in> set (actions r). raised r a = None"
  shows "handle_trigger ref now s =
     (case next_occurrence r now of
        Inl e \<Rightarrow>
          (Some e,
           s\<lparr>effects := effects s @ concat (map (dispatched r) (actions r)) @ [triggered r]\<rparr>)
      | Inr (Some next_time) \<Rightarrow>
          (None,
           schedule ref next_time
             (s\<lparr>effects := effects s @ concat (map (dispatched r) (actions r)) @ [triggered r]\<rparr>))
      | Inr None \<Rightarrow>
          (None,
           s\<lparr>effects := effects s @ concat (map (dispatched r) (actions r)) @ [triggered r],
             reminders := (reminders s)(id' r := None)\<rparr>))"
proof -
  from assms(2) have "dispatch_all r (actions r) s =
      (None, s\<lparr>effects := effects s @ concat (map (dispatched r) (actions r))\<rparr>)"
    by (rule dispatch_all_clean)
  from handle_trigger_ok [OF assms(1) this] show ?thesis
    by (simp split: option.splits sum.splits)
qed

lemma handle_trigger_abort:
  assumes "heap s ref = Some r" "\<not> (\<forall>a \<in> set (actions r). raised r a = None)"
  shows "\<exists>e. handle_trigger ref now s =
     (Some e, s\<lparr>effects := effects s @
        concat (map (dispatched r) (takeWhile (\<lambda>a. raised r a = None) (actions r)))\<rparr>)"
proof -
  from assms(2) have "fst (dispatch_all r (actions r) s) \<noteq> None"
    by (simp add: dispatch_all_None_iff)
  then obtain e where "fst (dispatch_all r (actions r) s) = Some e" by auto
  then have "dispatch_all r (actions r) s =
      (Some e, s\<lparr>effects := effects s @
        concat (map (dispatched r) (takeWhile (\<lambda>a. raised r a = None) (actions r)))\<rparr>)"
    by (simp add: dispatch_all_eq)
  from handle_trigger_raise [OF assms(1) this] show ?thesis by blast
qed

lemma handle_trigger_fst:
  "heap s ref = Some r \<Longrightarrow>
   fst (handle_trigger ref now s) =
     (case fst (dispatch_all r (actions r) s) of
        Some e \<Rightarrow> Some e
      | None \<Rightarrow> (case next_occurrence r now of Inl e \<Rightarrow> Some e | Inr _ \<Rightarrow> None))"
  by (cases "dispatch_all r (actions r) s")
     (simp add: handle_trigger_def Let_def split: option.splits sum.splits)

text \<open>
  The scenario of the spec, end to end: the request "Take pills", daily, twice, is added;
  its timer fires at the start and the trigger re-arms it for the next day; that timer
  fires and the reminder is gone.
\<close>

lemma scenario_daily_count2:
  "handle_add demo_parse demo_rrulestr ''r1''
     (demo_request (Some ''Take pills'') (StartStr ''2024-01-01T00:00:00'')
        (Some ''FREQ=DAILY;COUNT=2'')) init_state =
     (None, (demo_state (demo_daily []))
              \<lparr>timers := [\<lparr>handle = 0, fire_at = Naive 1704067200, target = 0\<rparr>]\<rparr>) \<and>
   fire_timer \<lparr>handle = 0, fire_at = Naive 1704067200, target = 0\<rparr> 1704067200
     ((demo_state (demo_daily []))\<lparr>timers := [\<lparr>handle = 0, fire_at = Naive 1704067200, target = 0\<rparr>]\<rparr>) =
     handle_trigger 0 1704067200 (demo_state (demo_daily [])) \<and>
   timers (snd (handle_trigger 0 1704067200 (demo_state (demo_daily [])))) =
     [\<lparr>handle = 1, fire_at = Naive 1704153600, target = 0\<rparr>] \<and>
   reminders (snd (fire_timer \<lparr>handle = 1, fire_at = Naive 1704153600, target = 0\<rparr> 1704153600
     (snd (handle_trigger 0 1704067200 (demo_state (demo_daily [])))))) = Map.empty"
  by (simp add: handle_add_def Reminder_init_def add_def schedule_def init_state_def
      demo_request_def demo_parse_def demo_rrulestr_def demo_state_def demo_daily_def
      fire_timer_def handle_trigger_def next_occurrence_def after_def dt_gt_def utcnow_def
      plus_seconds_def Let_def)

section \<open>Construction and recurrence\<close>

text \<open>
  Where \<open>after\<close> returns, it returns what the spec asks of it: an occurrence that
  compares strictly later than its argument, or nothing when no occurrence does. It raises
  as soon as the first occurrence is aware and the argument naive.
\<close>

lemma first_after_Some:
  "first_after xs dt = Inr (Some t) \<Longrightarrow> t \<in> set xs \<and> dt_gt t dt = Inr True"
  by (induction xs) (auto split: sum.splits if_splits)

lemma first_after_None:
  "first_after xs dt = Inr None \<Longrightarrow> \<forall>i \<in> set xs. dt_gt i dt = Inr False"
  by (induction xs) (auto split: sum.splits if_splits)

lemma next_occurrence_aware_raises:
  "priv_rrule r = Some (RRuleIter (Aware x # xs)) \<Longrightarrow>
   next_occurrence r now =
     Inl (TypeError ''cannot compare offset-naive and offset-aware datetimes'')"
  by (simp add: next_occurrence_def after_def utcnow_def dt_gt_def)

text \<open>
  C1. The claim asks \<open>next_occurrence\<close> of every validly constructed reminder for a
  timestamp later than now, or for nothing. The reminder of the spec's scenario, built
  from the start \<^verbatim>\<open>2024-01-01T00:00:00Z\<close> and the rule \<^verbatim>\<open>FREQ=DAILY;COUNT=2\<close>, is
  constructed without error, and its \<open>next_occurrence\<close> raises \<^verbatim>\<open>TypeError\<close>: the
  naive \<^verbatim>\<open>datetime.utcnow()\<close> is compared with the aware first occurrence.
\<close>

theorem next_occurrence_zoned_start_raises:
  "Reminder_init demo_parse demo_rrulestr ''Take pills'' (StartStr ''2024-01-01T00:00:00Z'')
     (Some ''FREQ=DAILY;COUNT=2'') [] ''r1'' = Inr ((demo_zoned [])\<lparr>priv_cancel := None\<rparr>) \<and>
   next_occurrence ((demo_zoned [])\<lparr>priv_cancel := None\<rparr>) 1704067200 =
     Inl (TypeError ''cannot compare offset-naive and offset-aware datetimes'')"
  by (simp add: Reminder_init_def demo_parse_def demo_rrulestr_def plus_seconds_def
      demo_zoned_def next_occurrence_def after_def utcnow_def dt_gt_def)

section \<open>Triggering\<close>

text \<open>
  C2. An action of an unrecognised type, a \<^verbatim>\<open>tts\<close> action without an entity id
  and a \<^verbatim>\<open>notify\<close> action without a service are skipped: dispatching one raises
  nothing and changes nothing, the loop over a list that holds one equals the loop over
  the list without it, and the whole trigger raises the same exception or none, hands the
  same service calls and event to the host, arms the same timers and leaves the same
  dictionary as the trigger of the reminder without that action.
\<close>

theorem skipped_action_is_transparent:
  assumes bad: "type a \<notin> {''tts'', ''notify''} \<or>
                (type a = ''tts'' \<and> \<not> truthy (entity_id a)) \<or>
                (type a = ''notify'' \<and> \<not> truthy (service a))"
    and r: "heap s ref = Some r"
    and acts: "actions r = xs @ a # ys"
  shows "dispatch r a s = (None, s) \<and>
         dispatch_all r (xs @ a # ys) s = dispatch_all r (xs @ ys) s \<and>
         (let without = s\<lparr>heap := (heap s)(ref \<mapsto> r\<lparr>actions := xs @ ys\<rparr>)\<rparr>;
              res = handle_trigger ref now s;
              res' = handle_trigger ref now without
          in fst res = fst res' \<and>
             effects (snd res) = effects (snd res') \<and>
             timers (snd res) = timers (snd res') \<and>
             reminders (snd res) = reminders (snd res'))"
proof -
  from bad have d: "dispatch r a t = (None, t)" for t
    by (auto simp: dispatch_def)
  then have ra: "raised r a = None" "dispatched r a = []"
    by (simp_all add: raised_def dispatched_def init_state_def)
  have skip: "dispatch_all r (xs @ a # ys) t = dispatch_all r (xs @ ys) t" for t
    using ra by (rule dispatch_all_skip)
  define r' where "r' = r\<lparr>actions := xs @ ys\<rparr>"
  define without where "without = s\<lparr>heap := (heap s)(ref \<mapsto> r')\<rparr>"
  have m: "message r' = message r" "id' r' = id' r" "actions r' = xs @ ys"
    "next_occurrence r' now = next_occurrence r now"
    by (simp_all add: r'_def next_occurrence_def)
  have rd: "raised r' b = raised r b" "dispatched r' b = dispatched r b" for b
    using raised_message [OF m(1)] dispatched_message [OF m(1)] by blast+
  have rdf: "dispatched r' = dispatched r"
    by (rule ext) (rule rd)
  have h': "heap without ref = Some r'" by (simp add: without_def)
  have all: "(\<forall>b \<in> set (actions r). raised r b = None) \<longleftrightarrow>
             (\<forall>b \<in> set (actions r'). raised r' b = None)"
    using ra by (auto simp: acts m rd)
  have tw: "concat (map (dispatched r) (takeWhile (\<lambda>a. raised r a = None) (actions r))) =
            concat (map (dispatched r') (takeWhile (\<lambda>a. raised r' a = None) (actions r')))"
    using ra by (simp add: acts m rd rdf takeWhile_skip)
  have e: "fst (handle_trigger ref now s) = fst (handle_trigger ref now without)"
  proof -
    have "fst (dispatch_all r' (actions r') without) = fst (dispatch_all r (xs @ ys) without)"
      using dispatch_all_message [OF m(1)] by (simp add: m)
    also have "\<dots> = fst (dispatch_all r (xs @ ys) s)"
      by (rule dispatch_all_fst)
    also have "\<dots> = fst (dispatch_all r (actions r) s)"
      by (simp add: acts skip)
    finally have d: "fst (dispatch_all r' (actions r') without) =
        fst (dispatch_all r (actions r) s)" .
    show ?thesis
      unfolding handle_trigger_fst [OF r, of now] handle_trigger_fst [OF h', of now] m(4) d
      by (rule refl)
  qed
  have obs: "effects (snd (handle_trigger ref now s)) = effects (snd (handle_trigger ref now without)) \<and>
        timers (snd (handle_trigger ref now s)) = timers (snd (handle_trigger ref now without)) \<and>
        reminders (snd (handle_trigger ref now s)) = reminders (snd (handle_trigger ref now without))"
  proof (cases "\<forall>b \<in> set (actions r). raised r b = None")
    case True
    with all have True': "\<forall>b \<in> set (actions r'). raised r' b = None" by simp
    have "concat (map (dispatched r) (actions r)) =
        concat (map (dispatched r') (actions r'))"
      using tw unfolding takeWhile_all [OF True] takeWhile_all [OF True'] .
    then show ?thesis
      unfolding handle_trigger_clean [OF r True, of now] handle_trigger_clean [OF h' True', of now]
      by (simp add: m acts rdf ra schedule_def without_def Let_def
          split: option.splits sum.splits)
  next
    case False
    with all have False': "\<not> (\<forall>b \<in> set (actions r'). raised r' b = None)" by simp
    from handle_trigger_abort [OF r False, of now] handle_trigger_abort [OF h' False', of now]
    obtain e e' where
      "handle_trigger ref now s = (Some e, s\<lparr>effects := effects s @
          concat (map (dispatched r) (takeWhile (\<lambda>a. raised r a = None) (actions r)))\<rparr>)"
      "handle_trigger ref now without = (Some e', without\<lparr>effects := effects without @
          concat (map (dispatched r') (takeWhile (\<lambda>a. raised r' a = None) (actions r')))\<rparr>)"
      by blast
    then show ?thesis
      using tw by (simp add: without_def)
  qed
  from d skip e obs show ?thesis
    unfolding Let_def without_def r'_def by blast
qed

theorem skipped_action_is_transparent_witness:
  "type demo_unknown \<notin> {''tts'', ''notify''} \<and>
   heap (demo_state (demo_oneshot [demo_tts, demo_unknown, demo_notify])) 0 =
     Some (demo_oneshot [demo_tts, demo_unknown, demo_notify]) \<and>
   actions (demo_oneshot [demo_tts, demo_unknown, demo_notify]) =
     [demo_tts] @ demo_unknown # [demo_notify] \<and>
   dispatch (demo_oneshot [demo_tts, demo_unknown, demo_notify]) demo_unknown
     (demo_state (demo_oneshot [demo_tts, demo_unknown, demo_notify])) =
     (None, demo_state (demo_oneshot [demo_tts, demo_unknown, demo_notify])) \<and>
   effects (snd (handle_trigger 0 1704067200
       (demo_state (demo_oneshot [demo_tts, demo_unknown, demo_notify])))) =
   effects (snd (handle_trigger 0 1704067200
       (demo_state (demo_oneshot [demo_tts, demo_notify]))))"
proof -
  let ?R = "demo_oneshot [demo_tts, demo_unknown, demo_notify]"
  have h0: "type demo_unknown \<notin> {''tts'', ''notify''}" by (simp add: demo_unknown_def)
  then have h1: "type demo_unknown \<notin> {''tts'', ''notify''} \<or>
      (type demo_unknown = ''tts'' \<and> \<not> truthy (entity_id demo_unknown)) \<or>
      (type demo_unknown = ''notify'' \<and> \<not> truthy (service demo_unknown))" by blast
  have h2: "heap (demo_state ?R) 0 = Some ?R" by (simp add: demo_state_def)
  have h3: "actions ?R = [demo_tts] @ demo_unknown # [demo_notify]"
    by (simp add: demo_oneshot_def)
  have w: "(demo_state ?R)\<lparr>heap := (heap (demo_state ?R))
              (0 \<mapsto> ?R\<lparr>actions := [demo_tts] @ [demo_notify]\<rparr>)\<rparr> =
           demo_state (demo_oneshot [demo_tts, demo_notify])"
    by (simp add: demo_state_def demo_oneshot_def)
  from skipped_action_is_transparent [OF h1 h2 h3, of 1704067200]
  show ?thesis using h0 h2 h3 unfolding Let_def w by blast
qed

text \<open>
  C3. The claim asks that a one-shot reminder be removed from the dictionary by its single
  trigger. For the one-shot reminder built from a request whose only action is a
  \<^verbatim>\<open>notify\<close> on the service \<^verbatim>\<open>"notify"\<close>, \<open>next_occurrence\<close> does answer
  nothing, but the trigger raises \<^verbatim>\<open>ValueError\<close> at the unpacking of the split service
  name, inside the loop: no timer is armed, and the id is still bound in the dictionary.
\<close>

theorem oneshot_dotless_notify_not_retired:
  "Reminder_init demo_parse demo_rrulestr ''Take pills'' (StartStr ''2024-01-01T00:00:00'')
     None [demo_dotless] ''r1'' = Inr ((demo_oneshot [demo_dotless])\<lparr>priv_cancel := None\<rparr>) \<and>
   next_occurrence (demo_oneshot [demo_dotless]) 1704067200 = Inr None \<and>
   heap (demo_state (demo_oneshot [demo_dotless])) 0 = Some (demo_oneshot [demo_dotless]) \<and>
   fst (handle_trigger 0 1704067200 (demo_state (demo_oneshot [demo_dotless]))) =
     Some (ValueError ''not enough values to unpack (expected 2, got 1)'') \<and>
   timers (snd (handle_trigger 0 1704067200 (demo_state (demo_oneshot [demo_dotless])))) = [] \<and>
   reminders (snd (handle_trigger 0 1704067200 (demo_state (demo_oneshot [demo_dotless])))) ''r1'' =
     Some 0"
  by (simp add: Reminder_init_def demo_parse_def handle_trigger_def dispatch_def truthy_def
      split_maxsplit1_def demo_state_def demo_oneshot_def demo_dotless_def next_occurrence_def)

text \<open>
  C4. The claim asks that a recurring reminder stay in the dictionary, re-armed, while its
  iterator yields, and leave it at the trigger where the iterator yields nothing. Two
  triggers where the code does neither. The reminder of the spec's scenario, with the
  zoned start: the trigger fires the event and then raises \<^verbatim>\<open>TypeError\<close> in
  \<open>next_occurrence\<close>, at the first occurrence as at the last, so no timer is armed and
  the reminder is never removed. The same rule on a naive start with a \<^verbatim>\<open>notify\<close>
  action on the service \<^verbatim>\<open>"notify"\<close>, triggered when the iterator yields nothing:
  the trigger raises \<^verbatim>\<open>ValueError\<close> in the loop and the reminder stays.
\<close>

theorem recurring_trigger_raises_not_retired:
  "handle_trigger 0 1704067200 (demo_state (demo_zoned [])) =
     (Some (TypeError ''cannot compare offset-naive and offset-aware datetimes''),
      (demo_state (demo_zoned []))
        \<lparr>effects := [Fired \<lparr>event_type = ''reminder_triggered'',
                            event_data = [''id'' \<mapsto> PStr ''r1'',
                                          ''message'' \<mapsto> PStr ''Take pills'']\<rparr>]\<rparr>) \<and>
   timers (snd (handle_trigger 0 1704067200 (demo_state (demo_zoned [])))) = [] \<and>
   fst (handle_trigger 0 1704153600 (demo_state (demo_zoned []))) =
     Some (TypeError ''cannot compare offset-naive and offset-aware datetimes'') \<and>
   reminders (snd (handle_trigger 0 1704153600 (demo_state (demo_zoned [])))) ''r1'' = Some 0 \<and>
   next_occurrence (demo_daily [demo_dotless]) 1704153600 = Inr None \<and>
   fst (handle_trigger 0 1704153600 (demo_state (demo_daily [demo_dotless]))) =
     Some (ValueError ''not enough values to unpack (expected 2, got 1)'') \<and>
   reminders (snd (handle_trigger 0 1704153600 (demo_state (demo_daily [demo_dotless])))) ''r1'' =
     Some 0"
  by (simp add: handle_trigger_def dispatch_def truthy_def split_maxsplit1_def
      demo_state_def demo_zoned_def demo_daily_def demo_dotless_def next_occurrence_def
      after_def utcnow_def dt_gt_def Let_def EVENT_REMINDER_TRIGGERED_def)



text \<open>
  C6. A \<^verbatim>\<open>notify\<close> action on the service \<^verbatim>\<open>d.n\<close> hands the host one call to
  service \<open>n\<close> of domain \<open>d\<close> whose payload holds every entry of the action's
  \<^verbatim>\<open>data\<close>, and the reminder's message under the key \<^verbatim>\<open>message\<close> when the
  action's \<^verbatim>\<open>data\<close> has no entry for that key; nothing else.
\<close>

theorem notify_payload_merge:
  assumes "type a = ''notify''" "service a = Some (d @ CHR ''.'' # n)" "CHR ''.'' \<notin> set d"
  shows "\<exists>payload.
           dispatch r a s =
             (None, s\<lparr>effects := effects s @
                [Call \<lparr>call_domain = d, call_service = n, call_data = payload,
                       call_blocking = True\<rparr>]\<rparr>) \<and>
           (\<forall>k. payload k =
              (case data a k of
                 Some v \<Rightarrow> Some v
               | None \<Rightarrow> if k = ''message'' then Some (PStr (message r)) else None))"
proof -
  have sp: "split_maxsplit1 CHR ''.'' (the (service a)) = [d, n]"
    using assms(2,3) by (simp add: split_with_sep)
  have t: "truthy (service a)" using assms(2) by (simp add: truthy_def)
  have "dispatch r a s =
      (None, s\<lparr>effects := effects s @
         [Call \<lparr>call_domain = d, call_service = n,
                call_data = [''message'' \<mapsto> PStr (message r)] ++ data a,
                call_blocking = True\<rparr>]\<rparr>)"
    unfolding dispatch_def sp using assms(1) t by simp
  moreover have "([''message'' \<mapsto> PStr (message r)] ++ data a) k =
      (case data a k of
         Some v \<Rightarrow> Some v
       | None \<Rightarrow> if k = ''message'' then Some (PStr (message r)) else None)" for k
    by (simp add: map_add_def split: option.splits)
  ultimately show ?thesis by blast
qed

theorem notify_payload_merge_witness:
  "type demo_override = ''notify'' \<and>
   service demo_override = Some (''mobile_app'' @ CHR ''.'' # ''notify'') \<and>
   CHR ''.'' \<notin> set ''mobile_app'' \<and>
   dispatch (demo_oneshot [demo_override]) demo_override init_state =
     (None, init_state\<lparr>effects := effects init_state @
        [Call \<lparr>call_domain = ''mobile_app'', call_service = ''notify'',
               call_data = [''message'' \<mapsto> PStr ''Custom''],
               call_blocking = True\<rparr>]\<rparr>)"
proof -
  have h1: "type demo_override = ''notify''" by (simp add: demo_override_def)
  have h2: "service demo_override = Some (''mobile_app'' @ CHR ''.'' # ''notify'')"
    by (simp add: demo_override_def)
  have h3: "CHR ''.'' \<notin> set ''mobile_app''" by simp
  from notify_payload_merge [OF h1 h2 h3, of "demo_oneshot [demo_override]" init_state]
  obtain payload where
    p: "dispatch (demo_oneshot [demo_override]) demo_override init_state =
         (None, init_state\<lparr>effects := effects init_state @
            [Call \<lparr>call_domain = ''mobile_app'', call_service = ''notify'',
                   call_data = payload, call_blocking = True\<rparr>]\<rparr>)"
    and q: "\<And>k. payload k =
              (case data demo_override k of
                 Some v \<Rightarrow> Some v
               | None \<Rightarrow> if k = ''message''
                         then Some (PStr (message (demo_oneshot [demo_override]))) else None)"
    by blast
  have "payload = [''message'' \<mapsto> PStr ''Custom'']"
    by (rule ext) (simp add: q demo_override_def)
  with p h1 h2 h3 show ?thesis by simp
qed

text \<open>
  C7. The claim asks for exactly one \<^verbatim>\<open>reminder_triggered\<close> event at every trigger.
  The trigger of a reminder whose only action is a \<^verbatim>\<open>notify\<close> on the service
  \<^verbatim>\<open>"notify"\<close> raises \<^verbatim>\<open>ValueError\<close> at the unpacking of the split service name,
  before the statement that fires the event: the host observes nothing at all.
\<close>

theorem dotless_notify_fires_no_event:
  "heap (demo_state (demo_oneshot [demo_dotless])) 0 = Some (demo_oneshot [demo_dotless]) \<and>
   handle_trigger 0 1704067200 (demo_state (demo_oneshot [demo_dotless])) =
     (Some (ValueError ''not enough values to unpack (expected 2, got 1)''),
      demo_state (demo_oneshot [demo_dotless])) \<and>
   effects (demo_state (demo_oneshot [demo_dotless])) = []"
  by (simp add: handle_trigger_def dispatch_def truthy_def split_maxsplit1_def
      demo_state_def demo_oneshot_def demo_dotless_def)

section \<open>Adding reminders\<close>

lemma Reminder_init_unparseable:
  "parse t = None \<Longrightarrow>
   Reminder_init parse rrulestr msg (StartStr t) rr acts uid =
     Inl (ValueError (''Could not parse start datetime: '' @ t))"
  by (simp add: Reminder_init_def)

text \<open>
  C8. When the start of an add request is a string the date parser cannot resolve, the
  constructor raises the \<^verbatim>\<open>ValueError\<close> "Could not parse start datetime" (the
  spec's \<^verbatim>\<open>InvalidStartTime\<close>), the request ends in an exception, and the state is the
  state before the request: no reminder inserted, no timer armed. The exception is that
  \<^verbatim>\<open>ValueError\<close> whenever the request has a message and its actions can be built,
  so that the constructor is reached.
\<close>

theorem unparseable_start_rejected:
  assumes "req_start req = Some (StartStr t)" and "parse t = None"
  shows "Reminder_init parse rrulestr msg (StartStr t) rr acts uid =
           Inl (ValueError (''Could not parse start datetime: '' @ t)) \<and>
         (\<exists>e. handle_add parse rrulestr uid req s = (Some e, s)) \<and>
         (\<forall>m as. req_message req = Some m \<and> build_actions (req_actions req) = Inr as \<longrightarrow>
            handle_add parse rrulestr uid req s =
              (Some (ValueError (''Could not parse start datetime: '' @ t)), s))"
  using assms
  by (auto simp: handle_add_def Reminder_init_unparseable split: sum.splits option.splits)

theorem unparseable_start_rejected_witness:
  "req_start (demo_request (Some ''Take pills'') (StartStr '''') None) = Some (StartStr '''') \<and>
   demo_parse '''' = None \<and>
   handle_add demo_parse demo_rrulestr ''r1'' (demo_request (Some ''Take pills'') (StartStr '''') None)
     init_state = (Some (ValueError ''Could not parse start datetime: ''), init_state) \<and>
   reminders init_state = Map.empty \<and> timers init_state = []"
proof -
  have h1: "req_start (demo_request (Some ''Take pills'') (StartStr '''') None) = Some (StartStr '''')"
    by (simp add: demo_request_def)
  have h2: "demo_parse '''' = None" by (simp add: demo_parse_def)
  have m: "req_message (demo_request (Some ''Take pills'') (StartStr '''') None) = Some ''Take pills''"
    "build_actions (req_actions (demo_request (Some ''Take pills'') (StartStr '''') None)) = Inr []"
    by (simp_all add: demo_request_def)
  from unparseable_start_rejected [where parse = demo_parse and rrulestr = demo_rrulestr
      and uid = "''r1''" and s = init_state, OF h1 h2]
  show ?thesis using h1 h2 m by (simp add: init_state_def)
qed

text \<open>
  C9, amended. A request without a message ends in an exception and leaves the state as
  it was; the exception is \<^verbatim>\<open>KeyError\<close> for the key \<^verbatim>\<open>message\<close> whenever the
  actions of the request can be built. Whether a request that has a message is accepted
  does not depend on the message: the empty message fares as any other.
\<close>

theorem missing_message_rejected:
  "(req_message req = None \<longrightarrow>
      (\<exists>e. handle_add parse rrulestr uid req s = (Some e, s)) \<and>
      (\<forall>as. build_actions (req_actions req) = Inr as \<longrightarrow>
         handle_add parse rrulestr uid req s = (Some (KeyError ''message''), s))) \<and>
   fst (handle_add parse rrulestr uid (req\<lparr>req_message := Some m\<rparr>) s) =
   fst (handle_add parse rrulestr uid (req\<lparr>req_message := Some []\<rparr>) s)"
proof -
  have "(\<exists>e. Reminder_init parse rrulestr m st rr as uid = Inl e \<and>
              Reminder_init parse rrulestr [] st rr as uid = Inl e) \<or>
        (\<exists>r r'. Reminder_init parse rrulestr m st rr as uid = Inr r \<and>
              Reminder_init parse rrulestr [] st rr as uid = Inr r')" for st rr as
    by (auto simp: Reminder_init_def Let_def split: start_arg.splits option.splits sum.splits)
  note ri = this
  have "fst (handle_add parse rrulestr uid (req\<lparr>req_message := Some m\<rparr>) s) =
        fst (handle_add parse rrulestr uid (req\<lparr>req_message := Some []\<rparr>) s)"
  proof (cases "build_actions (req_actions req)")
    case (Inl e)
    then show ?thesis by (simp add: handle_add_def)
  next
    case (Inr as)
    show ?thesis
    proof (cases "req_start req")
      case None
      with Inr show ?thesis by (simp add: handle_add_def)
    next
      case (Some st)
      from ri [of st "req_rrule req" as] Inr Some show ?thesis
        by (auto simp: handle_add_def Let_def)
    qed
  qed
  then show ?thesis
    by (auto simp: handle_add_def split: sum.splits option.splits)
qed

theorem missing_message_rejected_witness:
  "req_message (demo_request None (StartTime (Naive 1704067200)) None) = None \<and>
   handle_add demo_parse demo_rrulestr ''r1'' (demo_request None (StartTime (Naive 1704067200)) None) init_state =
     (Some (KeyError ''message''), init_state)"
proof -
  have h: "req_message (demo_request None (StartTime (Naive 1704067200)) None) = None"
    by (simp add: demo_request_def)
  have b: "build_actions (req_actions (demo_request None (StartTime (Naive 1704067200)) None)) = Inr []"
    by (simp add: demo_request_def)
  from missing_message_rejected [of "demo_request None (StartTime (Naive 1704067200)) None" demo_parse
      demo_rrulestr "''r1''" init_state]
  show ?thesis using h b by simp
qed

text \<open>
  C9 as stated fails for the empty message: the request is accepted, the reminder is
  inserted and its timer armed.
\<close>

theorem empty_message_accepted_counterexample:
  "handle_add demo_parse demo_rrulestr ''r1'' (demo_request (Some []) (StartTime (Naive 1704067200)) None)
     init_state =
   (None,
    \<lparr>heap = [0 \<mapsto> \<lparr>message = [], start = Naive 1704067200, rrule = None, actions = [],
                     id' = ''r1'', priv_cancel = Some 0, priv_rrule = None\<rparr>],
     next_ref = 1, reminders = [''r1'' \<mapsto> 0],
     timers = [\<lparr>handle = 0, fire_at = Naive 1704067200, target = 0\<rparr>],
     next_handle = 1, effects = []\<rparr>)"
  by (simp add: handle_add_def Reminder_init_def add_def schedule_def init_state_def
      demo_request_def Let_def)

text \<open>
  C10. Adding a reminder object whose id is already bound to another object rebinds the
  id to the new object and leaves every other id alone; the timers armed before are all
  still armed, followed by the new one, so no cancel handle was invoked; the old object
  is untouched; and firing the old timer runs \<open>handle_trigger\<close> on the old object.
\<close>

theorem add_overwrites_without_cancel:
  assumes "heap s new = Some r" and "reminders s (id' r) = Some old" and "old \<noteq> new"
    and "t \<in> set (timers s)" and "target t = old"
  shows "reminders (add new s) (id' r) = Some new \<and>
         (\<forall>k. k \<noteq> id' r \<longrightarrow> reminders (add new s) k = reminders s k) \<and>
         timers (add new s) =
           timers s @ [\<lparr>handle = next_handle s, fire_at = start r, target = new\<rparr>] \<and>
         t \<in> set (timers (add new s)) \<and>
         heap (add new s) old = heap s old \<and>
         fire_timer t now (add new s) =
           handle_trigger old now ((add new s)\<lparr>timers := remove1 t (timers (add new s))\<rparr>)"
proof -
  have a: "add new s =
      s\<lparr>reminders := (reminders s)(id' r \<mapsto> new),
        timers := timers s @ [\<lparr>handle = next_handle s, fire_at = start r, target = new\<rparr>],
        next_handle := Suc (next_handle s),
        heap := (heap s)(new \<mapsto> r\<lparr>priv_cancel := Some (next_handle s)\<rparr>)\<rparr>"
    using assms(1) by (simp add: add_def schedule_def Let_def)
  show ?thesis unfolding a fire_timer_def using assms by simp
qed

theorem add_overwrites_without_cancel_witness:
  "heap demo_collision 1 =
     Some ((demo_oneshot [demo_notify])\<lparr>message := ''Second'', priv_cancel := None\<rparr>) \<and>
   reminders demo_collision
     (id' ((demo_oneshot [demo_notify])\<lparr>message := ''Second'', priv_cancel := None\<rparr>)) = Some 0 \<and>
   (0::nat) \<noteq> 1 \<and>
   \<lparr>handle = 0, fire_at = Naive 1704067200, target = 0\<rparr> \<in> set (timers demo_collision) \<and>
   target \<lparr>handle = 0, fire_at = Naive 1704067200, target = 0\<rparr> = 0 \<and>
   reminders (add 1 demo_collision) ''r1'' = Some 1 \<and>
   timers (add 1 demo_collision) =
     [\<lparr>handle = 0, fire_at = Naive 1704067200, target = 0\<rparr>,
      \<lparr>handle = 1, fire_at = Naive 1704067200, target = 1\<rparr>] \<and>
   heap (add 1 demo_collision) 0 = Some (demo_oneshot [demo_tts]) \<and>
   fst (fire_timer \<lparr>handle = 0, fire_at = Naive 1704067200, target = 0\<rparr> 1704067200
          (add 1 demo_collision)) = None \<and>
   effects (snd (fire_timer \<lparr>handle = 0, fire_at = Naive 1704067200, target = 0\<rparr> 1704067200
          (add 1 demo_collision))) =
     [Call \<lparr>call_domain = ''tts'', call_service = ''google_translate_say'',
            call_data = [''entity_id'' \<mapsto> PStr ''media_player.kitchen'',
                         ''message'' \<mapsto> PStr ''Take pills''],
            call_blocking = True\<rparr>,
      Fired \<lparr>event_type = ''reminder_triggered'',
             event_data = [''id'' \<mapsto> PStr ''r1'', ''message'' \<mapsto> PStr ''Take pills'']\<rparr>]"
proof -
  let ?r = "(demo_oneshot [demo_notify])\<lparr>message := ''Second'', priv_cancel := None\<rparr>"
  let ?t = "\<lparr>handle = 0, fire_at = Naive 1704067200, target = 0\<rparr>"
  have h1: "heap demo_collision 1 = Some ?r" by (simp add: demo_collision_def)
  have h2: "reminders demo_collision (id' ?r) = Some 0"
    by (simp add: demo_collision_def demo_oneshot_def)
  have h3: "(0::nat) \<noteq> 1" by simp
  have h4: "?t \<in> set (timers demo_collision)" by (simp add: demo_collision_def)
  have h5: "target ?t = 0" by simp
  have b: "id' ?r = ''r1''" "start ?r = Naive 1704067200" "next_handle demo_collision = 1"
    "timers demo_collision = [?t]" "heap demo_collision 0 = Some (demo_oneshot [demo_tts])"
    by (simp_all add: demo_collision_def demo_oneshot_def)
  have o: "fst (fire_timer \<lparr>handle = 0, fire_at = Naive 1704067200, target = 0\<rparr> 1704067200
          (add 1 demo_collision)) = None \<and>
   effects (snd (fire_timer \<lparr>handle = 0, fire_at = Naive 1704067200, target = 0\<rparr> 1704067200
          (add 1 demo_collision))) =
     [Call \<lparr>call_domain = ''tts'', call_service = ''google_translate_say'',
            call_data = [''entity_id'' \<mapsto> PStr ''media_player.kitchen'',
                         ''message'' \<mapsto> PStr ''Take pills''],
            call_blocking = True\<rparr>,
      Fired \<lparr>event_type = ''reminder_triggered'',
             event_data = [''id'' \<mapsto> PStr ''r1'', ''message'' \<mapsto> PStr ''Take pills'']\<rparr>]"
    by (simp add: add_def schedule_def demo_collision_def demo_oneshot_def demo_tts_def
        demo_notify_def fire_timer_def handle_trigger_def dispatch_def truthy_def
        next_occurrence_def Let_def EVENT_REMINDER_TRIGGERED_def)
  from add_overwrites_without_cancel [OF h1 h2 h3 h4 h5, of 1704067200]
  show ?thesis using h1 h2 h4 o by (simp add: b)
qed

end
